theory Spec2Isabelle
  imports Main
begin

section \<open>The V2 manager of x-pack/libbeat/management (managerV2.go)\<close>

text \<open>
  The manager keeps a registry of the units the Elastic Agent hands to the beat, elects
  a main unit for status reporting, reloads the input and output subsystems when a unit
  arrives or changes, and shuts the beat down when asked to.

  Every method body and every handler is one state transformer on the manager's
  fields. The mutex \<open>unitsMut\<close> and the logger calls have no counterpart, and a goroutine
  started with \<open>go\<close> is recorded as an effect whose body runs as a step of its own (see
  \<open>Call\<close> below). What the manager does to its collaborators (the unit handles, the
  control-channel client, the reloadables, the stop callback) is appended to a trace of
  effects, in the order of the calls.

  A step of \<open>run\<close> is a whole method or a whole handler, so \<open>run\<close> ranges over the lives in
  which handlers do not overlap. In the source they can: \<open>unitListen\<close> starts every handler
  with \<open>go\<close>. A handler writes two fields of the manager. \<open>units\<close> is written under
  \<open>unitsMut\<close>; \<open>mainUnit\<close> is tested and assigned in \<open>setMainUnitValue\<close> with no lock held.
  The test and the assignment are therefore also given as two steps, and their
  interleavings between handlers are \<open>mainUnit_step\<close> below.

  Three things are taken from the collaborators as they behave in use: a call into a
  collaborator returns (a reload, the stop callback, a status push, whose error the code
  drops); a unit handle handed over by the client is not nil and its raw configuration
  is present (the handlers read its \<open>Type\<close> field for their log line); and a method
  called on a nil unit handle or through a nil client interface panics.
\<close>

subsection \<open>Types of the agent client and of the reload registry\<close>

text \<open>\<open>client.UnitState\<close> and \<open>client.UnitType\<close>, by their named constants.\<close>

datatype UnitState =
    UnitStateStarting
  | UnitStateConfiguring
  | UnitStateHealthy
  | UnitStateDegraded
  | UnitStateFailed
  | UnitStateStopping
  | UnitStateStopped

datatype UnitType = UnitTypeInput | UnitTypeOutput

datatype UnitChangedType = UnitChangedAdded | UnitChangedModified | UnitChangedRemoved

type_synonym UnitLogLevel = nat

text \<open>The raw configuration of a unit and the configurations made from it are opaque.\<close>

type_synonym UnitExpectedConfig = string
type_synonym ConfigWithMeta = string
type_synonym AgentInfo = string

text \<open>\<open>map[string]interface{}\<close>; a nil map is \<open>None\<close>.\<close>

type_synonym Payload = "(string \<times> string) list"

text \<open>A \<open>func()\<close> and a \<open>client.Action\<close>, each by a name that tells one value from another.\<close>

type_synonym StopFunc = string
type_synonym Action = string

text \<open>
  A \<open>*client.Unit\<close> that is not nil: what \<open>ID()\<close>, \<open>Type()\<close> and \<open>Expected()\<close> return for
  the handle when the manager asks.
\<close>

record Unit =
  ID :: string
  Type :: UnitType
  Expected :: "UnitState \<times> UnitLogLevel \<times> UnitExpectedConfig"

record UnitChanged =
  change_Type :: UnitChangedType
  change_Unit :: Unit

text \<open>
  A reloadable is its \<open>Reload\<close> method: \<open>None\<close> is a nil error, \<open>Some msg\<close> an error whose
  \<open>Error()\<close> is \<open>msg\<close>. The registry answers nil (\<open>None\<close>) for a name nobody registered.
\<close>

type_synonym Reloadable = "ConfigWithMeta \<Rightarrow> string option"
type_synonym ReloadableList = "ConfigWithMeta list \<Rightarrow> string option"

record Registry =
  GetReloadable :: "string \<Rightarrow> Reloadable option"
  GetReloadableList :: "string \<Rightarrow> ReloadableList option"

text \<open>
  The control-channel client \<open>client.V2\<close>: the error its \<open>Start\<close> returns and the
  \<open>AgentInfo()\<close> it reports. Its \<open>Stop\<close> is an effect; its \<open>UnitChanges()\<close> channel is the
  list of changes given to \<open>unitListen\<close>.
\<close>

record V2 =
  V2_Start :: "string option"
  V2_AgentInfo :: AgentInfo

record Config =
  cfg_Enabled :: bool

text \<open>
  \<open>groupByOutputs\<close> and \<open>generateBeatConfig\<close> belong to the package but live in another
  file; the handlers take them as parameters. \<open>Inl msg\<close> is a returned error.
\<close>

record Deps =
  groupByOutputs :: "UnitExpectedConfig \<Rightarrow> string + ConfigWithMeta"
  generateBeatConfig :: "UnitExpectedConfig \<Rightarrow> AgentInfo \<Rightarrow> string + ConfigWithMeta list"

subsection \<open>Effects and panics\<close>

text \<open>
  The calls the manager makes on its collaborators. \<open>UpdateState u s msg p\<close> is
  \<open>u.UpdateState(s, msg, p)\<close>, a status report pushed to the unit \<open>u\<close>.
\<close>

datatype Effect =
    UpdateState Unit UnitState string "Payload option"
  | UnitRegisterAction Unit Action
  | UnitUnregisterAction Unit Action
  | StopFuncCall StopFunc
  | ClientStart
  | ClientStop
  | OutputReload ConfigWithMeta
  | InputReload "ConfigWithMeta list"
  | Go_unitListen
  | Go_handleUnitReload Unit

text \<open>
  A method called through a nil interface, or a method of \<open>*client.Unit\<close> called on a nil
  pointer (each of \<open>UpdateState\<close>, \<open>RegisterAction\<close> and \<open>UnregisterAction\<close> starts by
  locking a mutex of its receiver), is a run-time panic.
\<close>

datatype Panic = NilPointerDereference

subsection \<open>The manager\<close>

text \<open>
  The fields of \<open>BeatV2Manager\<close>. \<open>client\<close> is an interface value, nil when the
  constructor did not set it. \<open>units\<close> maps an identifier to a unit handle. \<open>beatStop\<close>
  is the \<open>sync.Once\<close>: true once it has run its function. \<open>effects\<close> is the trace.
\<close>

record BeatV2Manager =
  config :: Config
  registry :: Registry
  client :: "V2 option"
  units :: "string \<rightharpoonup> Unit"
  mainUnit :: string
  payload :: "Payload option"
  stopFunc :: "StopFunc option"
  beatStop :: bool
  isRunning :: bool
  effects :: "Effect list"

definition NewV2AgentManagerWithClient ::
    "Config \<Rightarrow> Registry \<Rightarrow> V2 option \<Rightarrow> BeatV2Manager" where
  "NewV2AgentManagerWithClient cfg reg agentClient =
     \<lparr>config = cfg, registry = reg,
      client = (if cfg_Enabled cfg then agentClient else None),
      units = Map.empty, mainUnit = [], payload = None, stopFunc = None,
      beatStop = False, isRunning = False, effects = []\<rparr>"

definition emit :: "Effect \<Rightarrow> BeatV2Manager \<Rightarrow> BeatV2Manager" where
  "emit e cm = cm\<lparr>effects := effects cm @ [e]\<rparr>"

subsection \<open>Unit manager\<close>

definition addUnit :: "Unit \<Rightarrow> BeatV2Manager \<Rightarrow> BeatV2Manager" where
  "addUnit unit cm = cm\<lparr>units := (units cm)(ID unit \<mapsto> unit)\<rparr>"

definition getUnit :: "string \<Rightarrow> BeatV2Manager \<Rightarrow> Unit option" where
  "getUnit i cm = units cm i"

definition deleteUnit :: "Unit \<Rightarrow> BeatV2Manager \<Rightarrow> BeatV2Manager" where
  "deleteUnit unit cm = cm\<lparr>units := (units cm)(ID unit := None)\<rparr>"

subsection \<open>Beats central management interface\<close>

text \<open>
  \<open>UpdateStatus\<close> calls \<open>UpdateState\<close> on whatever \<open>getUnit\<close> returns, with the manager's
  payload. Its argument is the state after the conversion \<open>client.UnitState(status)\<close>.
\<close>

definition UpdateStatus :: "UnitState \<Rightarrow> string \<Rightarrow> BeatV2Manager \<Rightarrow> Panic + BeatV2Manager" where
  "UpdateStatus updateState msg cm =
     (case getUnit (mainUnit cm) cm of
        None \<Rightarrow> Inl NilPointerDereference
      | Some u \<Rightarrow> Inr (emit (UpdateState u updateState msg (payload cm)) cm))"

definition Enabled :: "BeatV2Manager \<Rightarrow> bool" where
  "Enabled cm = cfg_Enabled (config cm)"

definition SetStopCallback :: "StopFunc option \<Rightarrow> BeatV2Manager \<Rightarrow> BeatV2Manager" where
  "SetStopCallback f cm = cm\<lparr>stopFunc := f\<rparr>"

text \<open>\<open>Start\<close> returns its error (\<open>None\<close> for nil) beside the manager.\<close>

definition Start :: "BeatV2Manager \<Rightarrow> Panic + (string option \<times> BeatV2Manager)" where
  "Start cm =
     (if \<not> Enabled cm then Inr (Some ''V2 Manager is disabled'', cm)
      else case client cm of
        None \<Rightarrow> Inl NilPointerDereference
      | Some c \<Rightarrow>
          (let cm1 = emit ClientStart cm in
           case V2_Start c of
             Some err \<Rightarrow> Inr (Some ''error starting connection to client'', cm1)
           | None \<Rightarrow> Inr (None, (emit Go_unitListen cm1)\<lparr>isRunning := True\<rparr>)))"

text \<open>\<open>beatStop.Do(f)\<close>: the function runs unless the once has already run one.\<close>

definition Once_Do :: "StopFunc \<Rightarrow> BeatV2Manager \<Rightarrow> BeatV2Manager" where
  "Once_Do f cm =
     (if beatStop cm then cm else (emit (StopFuncCall f) cm)\<lparr>beatStop := True\<rparr>)"

definition stopBeat :: "Unit \<Rightarrow> BeatV2Manager \<Rightarrow> Panic + BeatV2Manager" where
  "stopBeat unit cm =
     (if \<not> isRunning cm then Inr cm
      else
        (let cm1 = cm\<lparr>isRunning := False\<rparr>;
             cm2 = emit (UpdateState unit UnitStateStopping ''stopping beat'' None) cm1;
             cm3 = (case stopFunc cm2 of None \<Rightarrow> cm2 | Some f \<Rightarrow> Once_Do f cm2)
         in case client cm3 of
              None \<Rightarrow> Inl NilPointerDereference
            | Some c \<Rightarrow>
                Inr (emit (UpdateState unit UnitStateStopped ''stopped beat'' None)
                       (emit ClientStop cm3))))"

definition Stop :: "BeatV2Manager \<Rightarrow> Panic + BeatV2Manager" where
  "Stop cm =
     (case units cm (mainUnit cm) of
        Some main \<Rightarrow> stopBeat main cm
      | None \<Rightarrow> Inr cm)"

definition CheckRawConfig :: "ConfigWithMeta \<Rightarrow> BeatV2Manager \<Rightarrow> string option" where
  "CheckRawConfig cfg cm = None"

definition RegisterAction :: "Action \<Rightarrow> BeatV2Manager \<Rightarrow> Panic + BeatV2Manager" where
  "RegisterAction action cm =
     (case units cm (mainUnit cm) of
        None \<Rightarrow> Inl NilPointerDereference
      | Some u \<Rightarrow> Inr (emit (UnitRegisterAction u action) cm))"

definition UnregisterAction :: "Action \<Rightarrow> BeatV2Manager \<Rightarrow> Panic + BeatV2Manager" where
  "UnregisterAction action cm =
     (case units cm (mainUnit cm) of
        None \<Rightarrow> Inl NilPointerDereference
      | Some u \<Rightarrow> Inr (emit (UnitUnregisterAction u action) cm))"

definition SetPayload :: "Payload option \<Rightarrow> BeatV2Manager \<Rightarrow> BeatV2Manager" where
  "SetPayload p cm = cm\<lparr>payload := p\<rparr>"

subsection \<open>Reload handlers\<close>

definition setMainUnitValue :: "Unit \<Rightarrow> BeatV2Manager \<Rightarrow> BeatV2Manager" where
  "setMainUnitValue unit cm =
     (if mainUnit cm = [] then cm\<lparr>mainUnit := ID unit\<rparr> else cm)"

definition quoted :: "string \<Rightarrow> string" where
  "quoted s = [CHR 0x27] @ s @ [CHR 0x27]"

definition handleOutputReload :: "Deps \<Rightarrow> Unit \<Rightarrow> BeatV2Manager \<Rightarrow> Panic + BeatV2Manager" where
  "handleOutputReload deps unit cm =
     (case Expected unit of (_, _, rawConfig) \<Rightarrow>
        (case groupByOutputs deps rawConfig of
           Inl err \<Rightarrow>
             Inr (emit (UpdateState unit UnitStateFailed
                          (''Failed to generate config for output: '' @ err) None) cm)
         | Inr reloadConfig \<Rightarrow>
             (case GetReloadable (registry cm) ''output'' of
                None \<Rightarrow>
                  Inr (emit (UpdateState unit UnitStateFailed
                               (''failed to find beat reloadable type '' @ quoted ''output'')
                               None) cm)
              | Some output \<Rightarrow>
                  (let cm1 = emit (UpdateState unit UnitStateConfiguring
                                     ''reloading output component'' None) cm;
                       cm2 = emit (OutputReload reloadConfig) cm1
                   in case output reloadConfig of
                        Some err \<Rightarrow>
                          Inr (emit (UpdateState unit UnitStateFailed
                                       (''Failed to reload component: '' @ err) None) cm2)
                      | None \<Rightarrow>
                          Inr (emit (UpdateState unit UnitStateHealthy
                                       ''reloaded output component'' None) cm2)))))"

definition handleInputReload :: "Deps \<Rightarrow> Unit \<Rightarrow> BeatV2Manager \<Rightarrow> Panic + BeatV2Manager" where
  "handleInputReload deps unit cm =
     (case Expected unit of (_, _, rawConfig) \<Rightarrow>
        (let cm0 = setMainUnitValue unit cm in
         case GetReloadableList (registry cm0) ''input'' of
           None \<Rightarrow>
             Inr (emit (UpdateState unit UnitStateFailed
                          (''failed to find beat reloadable type '' @ quoted ''input'')
                          None) cm0)
         | Some obj \<Rightarrow>
             (let cm1 = emit (UpdateState unit UnitStateConfiguring
                                (''found reloader for '' @ quoted ''input'') None) cm0
              in case client cm1 of
                   None \<Rightarrow> Inl NilPointerDereference
                 | Some c \<Rightarrow>
                     (case generateBeatConfig deps rawConfig (V2_AgentInfo c) of
                        Inl err \<Rightarrow>
                          Inr (emit (UpdateState unit UnitStateFailed
                                       (''Failed to create Unit config: '' @ err) None) cm1)
                      | Inr beatCfg \<Rightarrow>
                          (let cm2 = emit (InputReload beatCfg) cm1
                           in case obj beatCfg of
                                Some err \<Rightarrow>
                                  Inr (emit (UpdateState unit UnitStateFailed
                                               (''Error reloading input: '' @ err) None) cm2)
                              | None \<Rightarrow>
                                  Inr (emit (UpdateState unit UnitStateHealthy
                                               ''beat reloaded'' None) cm2))))))"

definition handleUnitReload :: "Deps \<Rightarrow> Unit \<Rightarrow> BeatV2Manager \<Rightarrow> Panic + BeatV2Manager" where
  "handleUnitReload deps unit cm =
     (let cm1 = addUnit unit cm; unitType = Type unit in
      if unitType = UnitTypeOutput then handleOutputReload deps unit cm1
      else if unitType = UnitTypeInput then handleInputReload deps unit cm1
      else Inr cm1)"

subsection \<open>The event loop\<close>

text \<open>
  The body of the loop of \<open>unitListen\<close> for one received change. \<open>go
  cm.handleUnitReload(u)\<close> is the effect \<open>Go_handleUnitReload u\<close>: the handler itself runs
  later, as a step of its own.
\<close>

definition unitListen_body :: "UnitChanged \<Rightarrow> BeatV2Manager \<Rightarrow> Panic + BeatV2Manager" where
  "unitListen_body change cm =
     (case change_Type change of
        UnitChangedAdded \<Rightarrow> Inr (emit (Go_handleUnitReload (change_Unit change)) cm)
      | UnitChangedModified \<Rightarrow>
          (case Expected (change_Unit change) of (state, _, _) \<Rightarrow>
             (case (if state = UnitStateStopped then stopBeat (change_Unit change) cm
                    else Inr cm) of
                Inl p \<Rightarrow> Inl p
              | Inr cm1 \<Rightarrow> Inr (emit (Go_handleUnitReload (change_Unit change)) cm1)))
      | UnitChangedRemoved \<Rightarrow> Inr (deleteUnit (change_Unit change) cm))"

text \<open>
  The loop never ends by itself; it is run here on the changes the channel delivers. Each
  round receives from \<open>cm.client.UnitChanges()\<close>, a call through the client interface.
\<close>

fun unitListen :: "UnitChanged list \<Rightarrow> BeatV2Manager \<Rightarrow> Panic + BeatV2Manager" where
  "unitListen [] cm = Inr cm"
| "unitListen (change # rest) cm =
     (case client cm of
        None \<Rightarrow> Inl NilPointerDereference
      | Some c \<Rightarrow>
          (case unitListen_body change cm of
             Inl p \<Rightarrow> Inl p
           | Inr cm1 \<Rightarrow> unitListen rest cm1))"

subsection \<open>A life of the manager as a sequence of calls\<close>

text \<open>
  What can happen to a manager, one step at a time: the host process calls a method of
  the management interface, the event loop handles one change, or a goroutine started
  for a unit runs \<open>handleUnitReload\<close>, from its first statement to its last. A panic ends
  the run.
\<close>

datatype Call =
    CallStart
  | CallStop
  | CallUpdateStatus UnitState string
  | CallSetStopCallback "StopFunc option"
  | CallRegisterAction Action
  | CallUnregisterAction Action
  | CallSetPayload "Payload option"
  | Listen UnitChanged
  | RunHandleUnitReload Unit

fun exec :: "Deps \<Rightarrow> Call \<Rightarrow> BeatV2Manager \<Rightarrow> Panic + BeatV2Manager" where
  "exec deps CallStart cm = (case Start cm of Inl p \<Rightarrow> Inl p | Inr (_, cm1) \<Rightarrow> Inr cm1)"
| "exec deps CallStop cm = Stop cm"
| "exec deps (CallUpdateStatus s msg) cm = UpdateStatus s msg cm"
| "exec deps (CallSetStopCallback f) cm = Inr (SetStopCallback f cm)"
| "exec deps (CallRegisterAction a) cm = RegisterAction a cm"
| "exec deps (CallUnregisterAction a) cm = UnregisterAction a cm"
| "exec deps (CallSetPayload p) cm = Inr (SetPayload p cm)"
| "exec deps (Listen change) cm = unitListen_body change cm"
| "exec deps (RunHandleUnitReload unit) cm = handleUnitReload deps unit cm"

fun run :: "Deps \<Rightarrow> Call list \<Rightarrow> BeatV2Manager \<Rightarrow> Panic + BeatV2Manager" where
  "run deps [] cm = Inr cm"
| "run deps (c # cs) cm =
     (case exec deps c cm of Inl p \<Rightarrow> Inl p | Inr cm1 \<Rightarrow> run deps cs cm1)"

subsection \<open>Handlers that overlap in \<open>setMainUnitValue\<close>\<close>

text \<open>
  The two halves of \<open>setMainUnitValue\<close>: the condition \<open>cm.mainUnit == ""\<close> and the
  assignment \<open>cm.mainUnit = unit.ID()\<close> it guards. No lock is held between them.
\<close>

definition setMainUnitValue_test :: "BeatV2Manager \<Rightarrow> bool" where
  "setMainUnitValue_test cm = (mainUnit cm = [])"

definition setMainUnitValue_assign :: "Unit \<Rightarrow> BeatV2Manager \<Rightarrow> BeatV2Manager" where
  "setMainUnitValue_assign unit cm = cm\<lparr>mainUnit := ID unit\<rparr>"

text \<open>
  A step of the handler goroutine of one unit inside \<open>setMainUnitValue\<close>: it evaluates
  the condition, or it leaves the \<open>if\<close>, through the assignment when its condition held.
  Beside the manager stand the units whose handler has found the condition true and has
  not assigned yet. \<open>mainUnit_history\<close> lists the designation after each step.
\<close>

datatype MainUnitStep = TestMainUnit Unit | AssignMainUnit Unit

primrec mainUnit_step ::
    "MainUnitStep \<Rightarrow> BeatV2Manager \<times> Unit list \<Rightarrow> BeatV2Manager \<times> Unit list" where
  "mainUnit_step (TestMainUnit unit) st =
     (fst st, if setMainUnitValue_test (fst st) then unit # snd st else snd st)"
| "mainUnit_step (AssignMainUnit unit) st =
     (if unit \<in> set (snd st) then setMainUnitValue_assign unit (fst st) else fst st,
      removeAll unit (snd st))"

primrec mainUnit_history ::
    "MainUnitStep list \<Rightarrow> BeatV2Manager \<times> Unit list \<Rightarrow> string list" where
  "mainUnit_history [] st = []"
| "mainUnit_history (s # ss) st =
     mainUnit (fst (mainUnit_step s st)) # mainUnit_history ss (mainUnit_step s st)"

subsection \<open>Reading the trace\<close>

text \<open>How often the stop callback ran.\<close>

fun is_StopFuncCall :: "Effect \<Rightarrow> bool" where
  "is_StopFuncCall (StopFuncCall f) = True"
| "is_StopFuncCall e = False"

definition stopFunc_calls :: "Effect list \<Rightarrow> nat" where
  "stopFunc_calls es = length (filter is_StopFuncCall es)"

text \<open>The states pushed to one unit, in order, and the payloads of all status reports.\<close>

fun pushed_states :: "Unit \<Rightarrow> Effect list \<Rightarrow> UnitState list" where
  "pushed_states unit [] = []"
| "pushed_states unit (UpdateState u s msg p # es) =
     (if u = unit then s # pushed_states unit es else pushed_states unit es)"
| "pushed_states unit (e # es) = pushed_states unit es"

fun report_payloads :: "Effect list \<Rightarrow> Payload option list" where
  "report_payloads [] = []"
| "report_payloads (UpdateState u s msg p # es) = p # report_payloads es"
| "report_payloads (e # es) = report_payloads es"

definition terminal :: "UnitState \<Rightarrow> bool" where
  "terminal s = (s = UnitStateHealthy \<or> s = UnitStateFailed)"

text \<open>The effects a step added: the trace of the later manager without the earlier one's.\<close>

definition effects_since :: "BeatV2Manager \<Rightarrow> BeatV2Manager \<Rightarrow> Effect list" where
  "effects_since cm cm' = drop (length (effects cm)) (effects cm')"

text \<open>
  The units whose reload handler ran, in order, and the identifier of the first of
  them that is an input unit with a name; the empty string when there is none.
\<close>

fun handled_units :: "Call list \<Rightarrow> Unit list" where
  "handled_units [] = []"
| "handled_units (RunHandleUnitReload u # cs) = u # handled_units cs"
| "handled_units (c # cs) = handled_units cs"

fun first_named_input :: "Unit list \<Rightarrow> string" where
  "first_named_input [] = []"
| "first_named_input (u # us) =
     (if Type u = UnitTypeInput \<and> ID u \<noteq> [] then ID u else first_named_input us)"

subsection \<open>Sample collaborators and units\<close>

text \<open>
  A registry with both reloadables, whose reloads succeed, and one with none; a client;
  conversions that fail on an empty raw configuration; a manager made by the constructor.
\<close>

definition ex_registry :: Registry where
  "ex_registry =
     \<lparr>GetReloadable = (\<lambda>n. if n = ''output'' then Some (\<lambda>c. None) else None),
      GetReloadableList = (\<lambda>n. if n = ''input'' then Some (\<lambda>c. None) else None)\<rparr>"

definition ex_registry_empty :: Registry where
  "ex_registry_empty = \<lparr>GetReloadable = (\<lambda>n. None), GetReloadableList = (\<lambda>n. None)\<rparr>"

definition ex_client :: V2 where
  "ex_client = \<lparr>V2_Start = None, V2_AgentInfo = ''agent-1''\<rparr>"

definition ex_deps :: Deps where
  "ex_deps =
     \<lparr>groupByOutputs = (\<lambda>raw. if raw = [] then Inl ''no type'' else Inr raw),
      generateBeatConfig =
        (\<lambda>raw info. if raw = [] then Inl ''no streams'' else Inr [raw @ ''@'' @ info])\<rparr>"

definition ex_manager :: BeatV2Manager where
  "ex_manager =
     NewV2AgentManagerWithClient \<lparr>cfg_Enabled = True\<rparr> ex_registry (Some ex_client)"

definition ex_manager_bare :: BeatV2Manager where
  "ex_manager_bare =
     NewV2AgentManagerWithClient \<lparr>cfg_Enabled = True\<rparr> ex_registry_empty (Some ex_client)"

definition ex_input :: Unit where
  "ex_input =
     \<lparr>ID = ''input-1'', Type = UnitTypeInput, Expected = (UnitStateHealthy, 2, ''filestream'')\<rparr>"

definition ex_input_stopped :: Unit where
  "ex_input_stopped =
     \<lparr>ID = ''input-1'', Type = UnitTypeInput, Expected = (UnitStateStopped, 2, ''filestream'')\<rparr>"

definition ex_output :: Unit where
  "ex_output =
     \<lparr>ID = ''output-1'', Type = UnitTypeOutput,
      Expected = (UnitStateHealthy, 2, ''elasticsearch'')\<rparr>"

definition ex_output_bad :: Unit where
  "ex_output_bad =
     \<lparr>ID = ''output-2'', Type = UnitTypeOutput, Expected = (UnitStateHealthy, 2, [])\<rparr>"

definition ex_input_other :: Unit where
  "ex_input_other =
     \<lparr>ID = ''input-2'', Type = UnitTypeInput, Expected = (UnitStateHealthy, 2, ''udp'')\<rparr>"

text \<open>
  A short life: the host registers its stop callback and starts the manager, the loop
  receives an Added event for \<open>ex_input\<close>, and the goroutine started for it runs. The
  manager it leaves is \<open>ex_running\<close>; \<open>ex_orphaned\<close> is that manager after a Removed event
  for its main unit.
\<close>

definition ex_life :: "Call list" where
  "ex_life =
     [CallSetStopCallback (Some ''beat.Stop''), CallStart,
      Listen \<lparr>change_Type = UnitChangedAdded, change_Unit = ex_input\<rparr>,
      RunHandleUnitReload ex_input]"

text \<open>The same life with an output unit in the place of the input unit.\<close>

definition ex_life_output :: "Call list" where
  "ex_life_output =
     [CallSetStopCallback (Some ''beat.Stop''), CallStart,
      Listen \<lparr>change_Type = UnitChangedAdded, change_Unit = ex_output\<rparr>,
      RunHandleUnitReload ex_output]"

definition ex_running :: BeatV2Manager where
  "ex_running =
     ex_manager\<lparr>units := [''input-1'' \<mapsto> ex_input], mainUnit := ''input-1'',
                stopFunc := Some ''beat.Stop'', isRunning := True,
                effects :=
                  [ClientStart, Go_unitListen, Go_handleUnitReload ex_input,
                   UpdateState ex_input UnitStateConfiguring
                     (''found reloader for '' @ quoted ''input'') None,
                   InputReload [''filestream@agent-1''],
                   UpdateState ex_input UnitStateHealthy ''beat reloaded'' None]\<rparr>"

definition ex_orphaned :: BeatV2Manager where
  "ex_orphaned = deleteUnit ex_input ex_running"

subsection \<open>An invariant of every life\<close>


section \<open>Properties\<close>

subsection \<open>Unfolding and evaluation\<close>

lemmas ex_defs =
  ex_manager_def ex_manager_bare_def NewV2AgentManagerWithClient_def ex_registry_def
  ex_registry_empty_def ex_client_def ex_deps_def ex_input_def ex_output_def
  ex_output_bad_def ex_input_stopped_def ex_input_other_def
  ex_life_def ex_life_output_def ex_running_def ex_orphaned_def

lemmas op_defs =
  Start_def Stop_def stopBeat_def Once_Do_def UpdateStatus_def RegisterAction_def
  UnregisterAction_def SetPayload_def SetStopCallback_def Enabled_def emit_def addUnit_def
  getUnit_def deleteUnit_def setMainUnitValue_def handleUnitReload_def
  handleInputReload_def handleOutputReload_def unitListen_body_def quoted_def


lemma client_emit [simp]: "client (emit e cm) = client cm"
  by (simp add: emit_def)

lemma stopFunc_calls_append [simp]:
  "stopFunc_calls (xs @ ys) = stopFunc_calls xs + stopFunc_calls ys"
  by (simp add: stopFunc_calls_def)

lemma stopFunc_calls_simps [simp]:
  "stopFunc_calls [] = 0"
  "stopFunc_calls (e # es) = (if is_StopFuncCall e then 1 else 0) + stopFunc_calls es"
  by (simp_all add: stopFunc_calls_def)

subsection \<open>The three calls that use the main unit unguarded\<close>

lemma no_registered_main_unit_panics:
  assumes "units cm (mainUnit cm) = None"
  shows "UpdateStatus s msg cm = Inl NilPointerDereference"
    and "RegisterAction a cm = Inl NilPointerDereference"
    and "UnregisterAction a cm = Inl NilPointerDereference"
  using assms
  by (simp_all add: UpdateStatus_def RegisterAction_def UnregisterAction_def getUnit_def)

subsection \<open>The shutdown sequence, step by step\<close>

lemma stopBeat_not_running: "\<not> isRunning cm \<Longrightarrow> stopBeat unit cm = Inr cm"
  by (simp add: stopBeat_def)

lemma stopBeat_running:
  assumes "isRunning cm" and "client cm = Some c"
  shows "stopBeat unit cm =
     Inr (cm\<lparr>isRunning := False,
             beatStop := (beatStop cm \<or> stopFunc cm \<noteq> None),
             effects := effects cm
               @ [UpdateState unit UnitStateStopping ''stopping beat'' None]
               @ (case stopFunc cm of
                    None \<Rightarrow> []
                  | Some f \<Rightarrow> if beatStop cm then [] else [StopFuncCall f])
               @ [ClientStop, UpdateState unit UnitStateStopped ''stopped beat'' None]\<rparr>)"
  using assms by (cases "stopFunc cm") (simp_all add: stopBeat_def Once_Do_def emit_def)

subsection \<open>Every step keeps the invariant\<close>

text \<open>
  The stop callback is run by \<open>beatStop.Do\<close> and nowhere else, and one \<open>Do\<close> keeps the
  count of its runs in step with the once.
\<close>

lemma Once_Do_count:
  "stopFunc_calls (effects cm) = (if beatStop cm then 1 else 0) \<Longrightarrow>
   stopFunc_calls (effects (Once_Do f cm)) = (if beatStop (Once_Do f cm) then 1 else 0)"
  by (simp add: Once_Do_def emit_def)















subsection \<open>The main unit changes only in the input handler\<close>

lemma mainUnit_emit [simp]: "mainUnit (emit e cm) = mainUnit cm"
  by (simp add: emit_def)

lemma mainUnit_stopBeat: "stopBeat unit cm = Inr cm' \<Longrightarrow> mainUnit cm' = mainUnit cm"
  by (auto simp: stopBeat_def Once_Do_def Let_def split: if_splits option.splits)

lemma mainUnit_handleOutputReload:
  "handleOutputReload deps unit cm = Inr cm' \<Longrightarrow> mainUnit cm' = mainUnit cm"
  unfolding handleOutputReload_def Let_def
  by (auto split: option.splits sum.splits prod.splits)

lemma mainUnit_handleInputReload:
  "handleInputReload deps unit cm = Inr cm' \<Longrightarrow>
   mainUnit cm' = (if mainUnit cm = [] then ID unit else mainUnit cm)"
  unfolding handleInputReload_def Let_def
  by (auto simp: setMainUnitValue_def split: option.splits sum.splits prod.splits)

lemma mainUnit_handleUnitReload:
  "handleUnitReload deps unit cm = Inr cm' \<Longrightarrow>
   mainUnit cm' =
     (if mainUnit cm = [] \<and> Type unit = UnitTypeInput then ID unit else mainUnit cm)"
  using mainUnit_handleOutputReload [of deps unit "addUnit unit cm" cm']
        mainUnit_handleInputReload [of deps unit "addUnit unit cm" cm']
  by (cases "Type unit") (simp_all add: handleUnitReload_def addUnit_def)

lemma mainUnit_unitListen_body:
  "unitListen_body change cm = Inr cm' \<Longrightarrow> mainUnit cm' = mainUnit cm"
  unfolding unitListen_body_def
  by (auto simp: deleteUnit_def split: UnitChangedType.splits prod.splits sum.splits if_splits
           dest: mainUnit_stopBeat)

lemma mainUnit_exec:
  "exec deps c cm = Inr cm' \<Longrightarrow>
   mainUnit cm' =
     (if mainUnit cm \<noteq> [] then mainUnit cm else first_named_input (handled_units [c]))"
proof (cases c)
  case CallStart
  assume "exec deps c cm = Inr cm'"
  with CallStart show ?thesis
    by (auto simp: Start_def Let_def emit_def split: if_splits option.splits sum.splits prod.splits)
next
  case CallStop
  assume "exec deps c cm = Inr cm'"
  with CallStop show ?thesis
    by (auto simp: Stop_def split: option.splits dest: mainUnit_stopBeat)
next
  case (CallUpdateStatus s m)
  assume "exec deps c cm = Inr cm'"
  with CallUpdateStatus show ?thesis
    by (auto simp: UpdateStatus_def split: option.splits)
next
  case (CallSetStopCallback f)
  assume "exec deps c cm = Inr cm'"
  with CallSetStopCallback show ?thesis
    by (auto simp: SetStopCallback_def)
next
  case (CallRegisterAction a)
  assume "exec deps c cm = Inr cm'"
  with CallRegisterAction show ?thesis
    by (auto simp: RegisterAction_def split: option.splits)
next
  case (CallUnregisterAction a)
  assume "exec deps c cm = Inr cm'"
  with CallUnregisterAction show ?thesis
    by (auto simp: UnregisterAction_def split: option.splits)
next
  case (CallSetPayload p)
  assume "exec deps c cm = Inr cm'"
  with CallSetPayload show ?thesis
    by (auto simp: SetPayload_def)
next
  case (Listen ch)
  assume "exec deps c cm = Inr cm'"
  with Listen show ?thesis
    by (auto dest: mainUnit_unitListen_body)
next
  case (RunHandleUnitReload u)
  assume "exec deps c cm = Inr cm'"
  with RunHandleUnitReload show ?thesis
    by (auto dest: mainUnit_handleUnitReload)
qed

lemma first_named_input_Cons_call:
  "first_named_input (handled_units (c # cs)) =
     (if first_named_input (handled_units [c]) \<noteq> [] then first_named_input (handled_units [c])
      else first_named_input (handled_units cs))"
  by (cases c) auto

text \<open>
  Over the steps of \<open>run\<close>, where no two handlers overlap, a designation that is set
  stays, and one that is unset becomes the identifier of the first handled input unit
  whose identifier is not the empty string.
\<close>

lemma mainUnit_run:
  "run deps calls cm = Inr cm' \<Longrightarrow>
   mainUnit cm' =
     (if mainUnit cm \<noteq> [] then mainUnit cm else first_named_input (handled_units calls))"
proof (induction calls arbitrary: cm)
  case Nil
  then show ?case by simp
next
  case (Cons c cs)
  from Cons.prems obtain cm1 where e: "exec deps c cm = Inr cm1" and r: "run deps cs cm1 = Inr cm'"
    by (auto split: sum.splits)
  from Cons.IH [OF r] mainUnit_exec [OF e] first_named_input_Cons_call [of c cs]
  show ?case by (auto split: if_splits)
qed

text \<open>
  The test and then the assignment of one handler, with no step of another handler
  between them, are \<open>setMainUnitValue\<close>.
\<close>

lemma setMainUnitValue_steps:
  "fst (mainUnit_step (AssignMainUnit unit) (mainUnit_step (TestMainUnit unit) (cm, [])))
     = setMainUnitValue unit cm"
  by (simp add: setMainUnitValue_def setMainUnitValue_test_def setMainUnitValue_assign_def)

subsection \<open>What the reload handlers add to the trace\<close>

lemma effects_since_self [simp]:
  "effects_since cm (cm\<lparr>effects := effects cm @ es\<rparr>) = es"
  by (simp add: effects_since_def)

lemma handleOutputReload_result:
  "\<exists>es. handleOutputReload deps unit cm = Inr (cm\<lparr>effects := effects cm @ es\<rparr>) \<and>
        length (filter terminal (pushed_states unit es)) = 1 \<and>
        set (report_payloads es) \<subseteq> {None}"
  unfolding handleOutputReload_def Let_def
  by (auto simp: emit_def terminal_def split: option.splits sum.splits prod.splits)

lemma handleInputReload_result:
  "client cm \<noteq> None \<Longrightarrow>
   \<exists>es. handleInputReload deps unit cm =
          Inr ((setMainUnitValue unit cm)\<lparr>effects := effects cm @ es\<rparr>) \<and>
        length (filter terminal (pushed_states unit es)) = 1 \<and>
        set (report_payloads es) \<subseteq> {None}"
  unfolding handleInputReload_def Let_def
  by (auto simp: emit_def terminal_def setMainUnitValue_def split: option.splits sum.splits prod.splits)

lemma effects_since_setMainUnitValue [simp]:
  "effects_since cm ((setMainUnitValue unit cm)\<lparr>effects := effects cm @ es\<rparr>) = es"
  by (simp add: effects_since_def)

lemma effects_since_addUnit [simp]: "effects_since (addUnit unit cm) cm' = effects_since cm cm'"
  by (simp add: effects_since_def addUnit_def)

lemma handleInputReload_success:
  assumes "client cm = Some c"
      and "GetReloadableList (registry cm) ''input'' = Some obj"
      and "generateBeatConfig deps (snd (snd (Expected unit))) (V2_AgentInfo c) = Inr beatCfg"
      and "obj beatCfg = None"
  shows "handleInputReload deps unit cm =
     Inr ((setMainUnitValue unit cm)\<lparr>effects := effects cm @
            [UpdateState unit UnitStateConfiguring (''found reloader for '' @ quoted ''input'') None,
             InputReload beatCfg,
             UpdateState unit UnitStateHealthy ''beat reloaded'' None]\<rparr>)"
  using assms unfolding handleInputReload_def Let_def
  by (auto simp: emit_def setMainUnitValue_def split: prod.splits)

lemma units_emit [simp]: "units (emit e cm) = units cm"
  by (simp add: emit_def)

lemma units_handleOutputReload:
  "handleOutputReload deps unit cm = Inr cm' \<Longrightarrow> units cm' = units cm"
  unfolding handleOutputReload_def Let_def
  by (auto split: option.splits sum.splits prod.splits)

lemma units_handleInputReload:
  "handleInputReload deps unit cm = Inr cm' \<Longrightarrow> units cm' = units cm"
  unfolding handleInputReload_def Let_def
  by (auto simp: setMainUnitValue_def split: option.splits sum.splits prod.splits)

lemma handleUnitReload_cases:
  "handleUnitReload deps unit cm =
     (if Type unit = UnitTypeOutput then handleOutputReload deps unit (addUnit unit cm)
      else handleInputReload deps unit (addUnit unit cm))"
  by (cases "Type unit") (simp_all add: handleUnitReload_def)

lemma handleOutputReload_unregistered:
  assumes "GetReloadable (registry cm) ''output'' = None"
  shows "handleOutputReload deps unit cm =
     Inr (cm\<lparr>effects := effects cm @
           [UpdateState unit UnitStateFailed
              (case groupByOutputs deps (snd (snd (Expected unit))) of
                 Inl err \<Rightarrow> ''Failed to generate config for output: '' @ err
               | Inr reloadConfig \<Rightarrow> ''failed to find beat reloadable type '' @ quoted ''output'')
              None]\<rparr>)"
  using assms unfolding handleOutputReload_def
  by (cases "Expected unit") (auto simp: emit_def split: sum.splits)

lemma handleInputReload_payloads:
  "handleInputReload deps unit cm = Inr cm' \<Longrightarrow>
   set (report_payloads (effects_since cm cm')) \<subseteq> {None}"
  unfolding handleInputReload_def Let_def
  by (auto simp: emit_def effects_since_def setMainUnitValue_def
           split: option.splits sum.splits prod.splits if_splits)

lemma handleOutputReload_payloads:
  "handleOutputReload deps unit cm = Inr cm' \<Longrightarrow>
   set (report_payloads (effects_since cm cm')) \<subseteq> {None}"
  using handleOutputReload_result [of deps unit cm] by auto

lemma stopBeat_payloads:
  "stopBeat unit cm = Inr cm' \<Longrightarrow> set (report_payloads (effects_since cm cm')) \<subseteq> {None}"
  unfolding stopBeat_def Let_def
  by (auto simp: emit_def effects_since_def Once_Do_def split: option.splits if_splits)

section \<open>The claims\<close>

subsection \<open>Management calls without a main unit\<close>

text \<open>
  C1. The claim: on a manager in which no main unit is designated (\<open>mainUnit\<close> unset, or
  naming an identifier that is not in the registry), \<open>UpdateStatus\<close>, \<open>RegisterAction\<close> and
  \<open>UnregisterAction\<close> are silent no-ops. The code looks the main unit up and calls the
  unit's method on the result without testing it, so on the lookup's nil result each of
  the three panics. The theorem evaluates the three calls on the manager the constructor
  returns (\<open>mainUnit\<close> unset) and on \<open>ex_orphaned\<close> (main unit designated, then removed):
  all six end in a nil-pointer dereference. \<open>Stop\<close>, the sibling method, tests the
  lookup (see C10).
\<close>

theorem no_main_unit_panics:
  "UpdateStatus UnitStateHealthy ''running'' ex_manager = Inl NilPointerDereference \<and>
   RegisterAction ''diagnostics'' ex_manager = Inl NilPointerDereference \<and>
   UnregisterAction ''diagnostics'' ex_manager = Inl NilPointerDereference \<and>
   UpdateStatus UnitStateHealthy ''running'' ex_orphaned = Inl NilPointerDereference \<and>
   RegisterAction ''diagnostics'' ex_orphaned = Inl NilPointerDereference \<and>
   UnregisterAction ''diagnostics'' ex_orphaned = Inl NilPointerDereference"
  by (simp add: ex_defs op_defs)

subsection \<open>Designation of the main unit\<close>

text \<open>
  C2. The claim: the designation is assigned when the first input unit is handled, takes
  that unit's identifier, and is never reassigned afterwards, not by a later input unit.
  \<open>unitListen\<close> starts the handler of every Added and Modified event with \<open>go\<close>, and
  \<open>setMainUnitValue\<close> tests and assigns \<open>mainUnit\<close> with no lock held, so the handlers of two
  input units can both find the designation unset before either assigns it. The theorem
  runs that schedule on the manager the constructor returns, for the input units
  \<open>input-1\<close> and \<open>input-2\<close>: both tests leave the designation unset, the first assignment
  sets it to \<open>input-1\<close>, and the second assignment changes it to \<open>input-2\<close>. The designation
  is assigned twice, and its last value is not the identifier of the unit that set it
  first.
\<close>

theorem main_unit_reassigned_by_overlapping_handlers:
  "Type ex_input = UnitTypeInput \<and> Type ex_input_other = UnitTypeInput \<and>
   mainUnit ex_manager = [] \<and>
   mainUnit_history
     [TestMainUnit ex_input, TestMainUnit ex_input_other,
      AssignMainUnit ex_input, AssignMainUnit ex_input_other]
     (ex_manager, [])
     = [[], [], ''input-1'', ''input-2'']"
  by (simp add: ex_defs setMainUnitValue_test_def setMainUnitValue_assign_def)

subsection \<open>The stop callback runs at most once\<close>




subsection \<open>The shutdown sequence\<close>

text \<open>
  C4. For every unit, \<open>stopBeat\<close> on a manager that is not running returns at once and
  changes nothing: no status push, no callback, no connection stop. On a running manager
  (which has a client) it clears the running flag and then, in this order, pushes
  Stopping to the unit, hands the stop callback, if one is registered, to the run-once
  guard \<open>beatStop\<close> (which invokes it unless it has already run, C3), stops the client and
  pushes Stopped to the unit. Nothing else is changed or emitted.
\<close>

theorem stopBeat_sequence:
  "(\<not> isRunning cm \<longrightarrow> stopBeat unit cm = Inr cm) \<and>
   (isRunning cm \<and> client cm \<noteq> None \<longrightarrow>
      stopBeat unit cm =
        Inr (cm\<lparr>isRunning := False,
                beatStop := (beatStop cm \<or> stopFunc cm \<noteq> None),
                effects := effects cm
                  @ [UpdateState unit UnitStateStopping ''stopping beat'' None]
                  @ (case stopFunc cm of
                       None \<Rightarrow> []
                     | Some f \<Rightarrow> if beatStop cm then [] else [StopFuncCall f])
                  @ [ClientStop,
                     UpdateState unit UnitStateStopped ''stopped beat'' None]\<rparr>))"
  using stopBeat_not_running stopBeat_running by auto

theorem stopBeat_sequence_witness:
  "\<not> isRunning ex_manager \<and> stopBeat ex_input ex_manager = Inr ex_manager \<and>
   isRunning ex_running \<and> client ex_running \<noteq> None \<and>
   stopBeat ex_input ex_running =
     Inr (ex_running\<lparr>isRunning := False, beatStop := True,
            effects := effects ex_running
              @ [UpdateState ex_input UnitStateStopping ''stopping beat'' None,
                 StopFuncCall ''beat.Stop'', ClientStop,
                 UpdateState ex_input UnitStateStopped ''stopped beat'' None]\<rparr>)"
proof -
  have a: "\<not> isRunning ex_manager"
    by (simp add: ex_defs)
  have b: "isRunning ex_running \<and> client ex_running \<noteq> None"
    by (simp add: ex_defs)
  have c: "stopFunc ex_running = Some ''beat.Stop'' \<and> \<not> beatStop ex_running"
    by (simp add: ex_defs)
  from stopBeat_sequence [of ex_manager ex_input] a
  have "stopBeat ex_input ex_manager = Inr ex_manager" by blast
  moreover from stopBeat_sequence [of ex_running ex_input] b c
  have "stopBeat ex_input ex_running =
     Inr (ex_running\<lparr>isRunning := False, beatStop := True,
            effects := effects ex_running
              @ [UpdateState ex_input UnitStateStopping ''stopping beat'' None,
                 StopFuncCall ''beat.Stop'', ClientStop,
                 UpdateState ex_input UnitStateStopped ''stopped beat'' None]\<rparr>)"
    by simp
  ultimately show ?thesis using a b by blast
qed

subsection \<open>One terminal status for each reload\<close>

text \<open>
  C5. Every run of the output handler returns and pushes to the unit exactly one
  terminal status (Healthy or Failed); so does every run of the input handler on a
  manager that has its client (the handler asks the client for \<open>AgentInfo()\<close>). And when
  an input unit arrives at \<open>handleUnitReload\<close>, the "input" reloadable is registered,
  \<open>generateBeatConfig\<close> succeeds and the reload returns no error, the states pushed to the
  unit are exactly Configuring, then Healthy.
\<close>

theorem reload_pushes_one_terminal_status:
  "(\<exists>cm'. handleOutputReload deps unit cm = Inr cm' \<and>
          length (filter terminal (pushed_states unit (effects_since cm cm'))) = 1) \<and>
   (client cm \<noteq> None \<longrightarrow>
      (\<exists>cm'. handleInputReload deps unit cm = Inr cm' \<and>
             length (filter terminal (pushed_states unit (effects_since cm cm'))) = 1)) \<and>
   (Type unit = UnitTypeInput \<and> client cm = Some c \<and>
    GetReloadableList (registry cm) ''input'' = Some obj \<and>
    generateBeatConfig deps (snd (snd (Expected unit))) (V2_AgentInfo c) = Inr beatCfg \<and>
    obj beatCfg = None \<longrightarrow>
      (\<exists>cm'. handleUnitReload deps unit cm = Inr cm' \<and>
             pushed_states unit (effects_since cm cm') =
               [UnitStateConfiguring, UnitStateHealthy]))"
proof (intro conjI impI)
  from handleOutputReload_result [of deps unit cm]
  show "\<exists>cm'. handleOutputReload deps unit cm = Inr cm' \<and>
          length (filter terminal (pushed_states unit (effects_since cm cm'))) = 1"
    by auto
next
  assume "client cm \<noteq> None"
  from handleInputReload_result [OF this, of deps unit]
  show "\<exists>cm'. handleInputReload deps unit cm = Inr cm' \<and>
             length (filter terminal (pushed_states unit (effects_since cm cm'))) = 1"
    by auto
next
  assume a: "Type unit = UnitTypeInput \<and> client cm = Some c \<and>
    GetReloadableList (registry cm) ''input'' = Some obj \<and>
    generateBeatConfig deps (snd (snd (Expected unit))) (V2_AgentInfo c) = Inr beatCfg \<and>
    obj beatCfg = None"
  then have "client (addUnit unit cm) = Some c"
    and "GetReloadableList (registry (addUnit unit cm)) ''input'' = Some obj"
    by (simp_all add: addUnit_def)
  from handleInputReload_success [OF this] a
  have "handleUnitReload deps unit cm =
     Inr ((setMainUnitValue unit (addUnit unit cm))\<lparr>effects := effects (addUnit unit cm) @
            [UpdateState unit UnitStateConfiguring (''found reloader for '' @ quoted ''input'') None,
             InputReload beatCfg,
             UpdateState unit UnitStateHealthy ''beat reloaded'' None]\<rparr>)"
    by (simp add: handleUnitReload_def)
  then show "\<exists>cm'. handleUnitReload deps unit cm = Inr cm' \<and>
             pushed_states unit (effects_since cm cm') =
               [UnitStateConfiguring, UnitStateHealthy]"
    by (simp add: effects_since_def addUnit_def setMainUnitValue_def)
qed

theorem reload_pushes_one_terminal_status_witness:
  "(\<exists>cm'. handleOutputReload ex_deps ex_output ex_manager = Inr cm' \<and>
          length (filter terminal (pushed_states ex_output (effects_since ex_manager cm'))) = 1) \<and>
   client ex_manager_bare \<noteq> None \<and>
   (\<exists>cm'. handleInputReload ex_deps ex_input ex_manager_bare = Inr cm' \<and>
          length (filter terminal (pushed_states ex_input (effects_since ex_manager_bare cm'))) = 1) \<and>
   Type ex_input = UnitTypeInput \<and> client ex_manager = Some ex_client \<and>
   GetReloadableList (registry ex_manager) ''input'' = Some (\<lambda>c. None) \<and>
   generateBeatConfig ex_deps (snd (snd (Expected ex_input))) (V2_AgentInfo ex_client)
     = Inr [''filestream@agent-1''] \<and>
   (\<exists>cm'. handleUnitReload ex_deps ex_input ex_manager = Inr cm' \<and>
          pushed_states ex_input (effects_since ex_manager cm') =
            [UnitStateConfiguring, UnitStateHealthy])"
proof -
  have h1: "client ex_manager_bare \<noteq> None"
    by (simp add: ex_defs)
  have h2: "Type ex_input = UnitTypeInput \<and> client ex_manager = Some ex_client \<and>
    GetReloadableList (registry ex_manager) ''input'' = Some (\<lambda>c. None) \<and>
    generateBeatConfig ex_deps (snd (snd (Expected ex_input))) (V2_AgentInfo ex_client)
      = Inr [''filestream@agent-1''] \<and>
    (\<lambda>c. None) [''filestream@agent-1''] = (None :: string option)"
    by (simp add: ex_defs)
  from reload_pushes_one_terminal_status [of ex_deps ex_output ex_manager]
  have a: "\<exists>cm'. handleOutputReload ex_deps ex_output ex_manager = Inr cm' \<and>
          length (filter terminal (pushed_states ex_output (effects_since ex_manager cm'))) = 1"
    by blast
  from reload_pushes_one_terminal_status [of ex_deps ex_input ex_manager_bare] h1
  have b: "\<exists>cm'. handleInputReload ex_deps ex_input ex_manager_bare = Inr cm' \<and>
          length (filter terminal (pushed_states ex_input (effects_since ex_manager_bare cm'))) = 1"
    by blast
  from reload_pushes_one_terminal_status
         [of ex_deps ex_input ex_manager ex_client "\<lambda>c. None" "[''filestream@agent-1'']"] h2
  have c: "\<exists>cm'. handleUnitReload ex_deps ex_input ex_manager = Inr cm' \<and>
          pushed_states ex_input (effects_since ex_manager cm') =
            [UnitStateConfiguring, UnitStateHealthy]"
    by blast
  from a b c h1 h2 show ?thesis by blast
qed

subsection \<open>Modified events\<close>

text \<open>
  C6. The loop's handling of a Modified event: when the unit's desired state is Stopped,
  the shutdown sequence \<open>stopBeat\<close> runs for that unit to its end (on a manager that, if
  running, has its client), and the reload handler is dispatched on the manager it
  leaves, after everything the shutdown put into the trace. When the desired state is
  not Stopped the handler is dispatched at once. In both cases the last effect is the
  dispatch of \<open>handleUnitReload\<close> for the unit.
\<close>

theorem Modified_event:
  "(fst (Expected unit) = UnitStateStopped \<and> (isRunning cm \<longrightarrow> client cm \<noteq> None) \<longrightarrow>
      (\<exists>cm1. stopBeat unit cm = Inr cm1 \<and>
             unitListen_body \<lparr>change_Type = UnitChangedModified, change_Unit = unit\<rparr> cm
               = Inr (cm1\<lparr>effects := effects cm1 @ [Go_handleUnitReload unit]\<rparr>))) \<and>
   (fst (Expected unit) \<noteq> UnitStateStopped \<longrightarrow>
      unitListen_body \<lparr>change_Type = UnitChangedModified, change_Unit = unit\<rparr> cm
        = Inr (cm\<lparr>effects := effects cm @ [Go_handleUnitReload unit]\<rparr>))"
proof (intro conjI impI)
  assume a: "fst (Expected unit) = UnitStateStopped \<and> (isRunning cm \<longrightarrow> client cm \<noteq> None)"
  have "\<exists>cm1. stopBeat unit cm = Inr cm1"
  proof (cases "isRunning cm")
    case True
    with a obtain c where "client cm = Some c" by auto
    from stopBeat_running [OF True this] show ?thesis by blast
  next
    case False
    then show ?thesis by (simp add: stopBeat_not_running)
  qed
  then obtain cm1 where s: "stopBeat unit cm = Inr cm1" ..
  with a have "unitListen_body \<lparr>change_Type = UnitChangedModified, change_Unit = unit\<rparr> cm
               = Inr (cm1\<lparr>effects := effects cm1 @ [Go_handleUnitReload unit]\<rparr>)"
    by (cases "Expected unit") (simp add: unitListen_body_def emit_def)
  with s show "\<exists>cm1. stopBeat unit cm = Inr cm1 \<and>
             unitListen_body \<lparr>change_Type = UnitChangedModified, change_Unit = unit\<rparr> cm
               = Inr (cm1\<lparr>effects := effects cm1 @ [Go_handleUnitReload unit]\<rparr>)"
    by blast
next
  assume "fst (Expected unit) \<noteq> UnitStateStopped"
  then show "unitListen_body \<lparr>change_Type = UnitChangedModified, change_Unit = unit\<rparr> cm
        = Inr (cm\<lparr>effects := effects cm @ [Go_handleUnitReload unit]\<rparr>)"
    by (cases "Expected unit") (simp add: unitListen_body_def emit_def)
qed

theorem Modified_event_witness:
  "fst (Expected ex_input_stopped) = UnitStateStopped \<and> isRunning ex_running \<and>
   client ex_running \<noteq> None \<and>
   map_sum id effects
     (unitListen_body \<lparr>change_Type = UnitChangedModified, change_Unit = ex_input_stopped\<rparr>
        ex_running)
     = Inr (effects ex_running @
            [UpdateState ex_input_stopped UnitStateStopping ''stopping beat'' None,
             StopFuncCall ''beat.Stop'', ClientStop,
             UpdateState ex_input_stopped UnitStateStopped ''stopped beat'' None,
             Go_handleUnitReload ex_input_stopped]) \<and>
   fst (Expected ex_input) \<noteq> UnitStateStopped \<and>
   unitListen_body \<lparr>change_Type = UnitChangedModified, change_Unit = ex_input\<rparr> ex_running
     = Inr (ex_running\<lparr>effects := effects ex_running @ [Go_handleUnitReload ex_input]\<rparr>)"
proof -
  have h: "fst (Expected ex_input_stopped) = UnitStateStopped \<and> isRunning ex_running \<and>
      client ex_running \<noteq> None \<and> fst (Expected ex_input) \<noteq> UnitStateStopped"
    by (simp add: ex_defs)
  have s: "map_sum id effects (stopBeat ex_input_stopped ex_running)
     = Inr (effects ex_running @
            [UpdateState ex_input_stopped UnitStateStopping ''stopping beat'' None,
             StopFuncCall ''beat.Stop'', ClientStop,
             UpdateState ex_input_stopped UnitStateStopped ''stopped beat'' None])"
    by (simp add: ex_defs op_defs)
  from Modified_event [of ex_input_stopped ex_running] h
  obtain cm1 where c: "stopBeat ex_input_stopped ex_running = Inr cm1"
    and u: "unitListen_body \<lparr>change_Type = UnitChangedModified, change_Unit = ex_input_stopped\<rparr>
               ex_running = Inr (cm1\<lparr>effects := effects cm1 @ [Go_handleUnitReload ex_input_stopped]\<rparr>)"
    by blast
  from c s have "effects cm1 = effects ex_running @
            [UpdateState ex_input_stopped UnitStateStopping ''stopping beat'' None,
             StopFuncCall ''beat.Stop'', ClientStop,
             UpdateState ex_input_stopped UnitStateStopped ''stopped beat'' None]"
    by simp
  with u have e: "map_sum id effects
     (unitListen_body \<lparr>change_Type = UnitChangedModified, change_Unit = ex_input_stopped\<rparr>
        ex_running)
     = Inr (effects ex_running @
            [UpdateState ex_input_stopped UnitStateStopping ''stopping beat'' None,
             StopFuncCall ''beat.Stop'', ClientStop,
             UpdateState ex_input_stopped UnitStateStopped ''stopped beat'' None,
             Go_handleUnitReload ex_input_stopped])"
    by simp
  from Modified_event [of ex_input ex_running] h
  have "unitListen_body \<lparr>change_Type = UnitChangedModified, change_Unit = ex_input\<rparr> ex_running
     = Inr (ex_running\<lparr>effects := effects ex_running @ [Go_handleUnitReload ex_input]\<rparr>)"
    by blast
  with e h show ?thesis by blast
qed

subsection \<open>The unit is registered before it is reloaded\<close>

text \<open>
  C7, as amended. \<open>handleUnitReload\<close> runs the handler of the unit's kind on the manager
  in which the unit is already registered, and the unit is still registered under its
  identifier whenever the handler returns. For an output unit whose "output" reloadable
  is not registered, the handler returns with the unit registered and has pushed exactly
  one status, Failed; its message names the missing reloadable when \<open>groupByOutputs\<close>
  succeeds on the unit's raw configuration, and reports the conversion error otherwise.
\<close>

theorem unit_registered_before_reload:
  "handleUnitReload deps unit cm =
     (if Type unit = UnitTypeOutput then handleOutputReload deps unit (addUnit unit cm)
      else handleInputReload deps unit (addUnit unit cm)) \<and>
   units (addUnit unit cm) (ID unit) = Some unit \<and>
   (handleUnitReload deps unit cm = Inr cm' \<longrightarrow> units cm' (ID unit) = Some unit) \<and>
   (Type unit = UnitTypeOutput \<and> GetReloadable (registry cm) ''output'' = None \<longrightarrow>
      (\<exists>cm2. handleUnitReload deps unit cm = Inr cm2 \<and>
             units cm2 (ID unit) = Some unit \<and>
             effects_since cm cm2 =
               [UpdateState unit UnitStateFailed
                  (case groupByOutputs deps (snd (snd (Expected unit))) of
                     Inl err \<Rightarrow> ''Failed to generate config for output: '' @ err
                   | Inr reloadConfig \<Rightarrow>
                       ''failed to find beat reloadable type '' @ quoted ''output'')
                  None]))"
proof (intro conjI impI)
  show "handleUnitReload deps unit cm =
     (if Type unit = UnitTypeOutput then handleOutputReload deps unit (addUnit unit cm)
      else handleInputReload deps unit (addUnit unit cm))"
    by (rule handleUnitReload_cases)
next
  show "units (addUnit unit cm) (ID unit) = Some unit"
    by (simp add: addUnit_def)
next
  assume "handleUnitReload deps unit cm = Inr cm'"
  then have "units cm' = units (addUnit unit cm)"
    by (auto simp: handleUnitReload_cases split: if_splits
             dest: units_handleOutputReload units_handleInputReload)
  then show "units cm' (ID unit) = Some unit"
    by (simp add: addUnit_def)
next
  assume a: "Type unit = UnitTypeOutput \<and> GetReloadable (registry cm) ''output'' = None"
  then have "GetReloadable (registry (addUnit unit cm)) ''output'' = None"
    by (simp add: addUnit_def)
  from handleOutputReload_unregistered [OF this, of deps unit] a
  have "handleUnitReload deps unit cm =
     Inr ((addUnit unit cm)\<lparr>effects := effects (addUnit unit cm) @
           [UpdateState unit UnitStateFailed
              (case groupByOutputs deps (snd (snd (Expected unit))) of
                 Inl err \<Rightarrow> ''Failed to generate config for output: '' @ err
               | Inr reloadConfig \<Rightarrow> ''failed to find beat reloadable type '' @ quoted ''output'')
              None]\<rparr>)"
    by (simp add: handleUnitReload_cases)
  then show "\<exists>cm2. handleUnitReload deps unit cm = Inr cm2 \<and>
             units cm2 (ID unit) = Some unit \<and>
             effects_since cm cm2 =
               [UpdateState unit UnitStateFailed
                  (case groupByOutputs deps (snd (snd (Expected unit))) of
                     Inl err \<Rightarrow> ''Failed to generate config for output: '' @ err
                   | Inr reloadConfig \<Rightarrow>
                       ''failed to find beat reloadable type '' @ quoted ''output'')
                  None]"
    by (simp add: effects_since_def addUnit_def)
qed

theorem unit_registered_before_reload_witness:
  "(\<exists>cm'. handleUnitReload ex_deps ex_input ex_manager = Inr cm' \<and>
          units cm' (ID ex_input) = Some ex_input) \<and>
   Type ex_output = UnitTypeOutput \<and> GetReloadable (registry ex_manager_bare) ''output'' = None \<and>
   (\<exists>cm2. handleUnitReload ex_deps ex_output ex_manager_bare = Inr cm2 \<and>
          units cm2 (ID ex_output) = Some ex_output \<and>
          effects_since ex_manager_bare cm2 =
            [UpdateState ex_output UnitStateFailed
               (''failed to find beat reloadable type '' @ quoted ''output'') None]) \<and>
   Type ex_output_bad = UnitTypeOutput \<and>
   (\<exists>cm2. handleUnitReload ex_deps ex_output_bad ex_manager_bare = Inr cm2 \<and>
          units cm2 (ID ex_output_bad) = Some ex_output_bad \<and>
          effects_since ex_manager_bare cm2 =
            [UpdateState ex_output_bad UnitStateFailed
               ''Failed to generate config for output: no type'' None])"
proof -
  obtain a where a: "handleUnitReload ex_deps ex_input ex_manager = Inr a"
    by (simp add: ex_defs op_defs)
  from unit_registered_before_reload [of ex_deps ex_input ex_manager a] a
  have 1: "units a (ID ex_input) = Some ex_input"
    by blast
  have h: "Type ex_output = UnitTypeOutput \<and> Type ex_output_bad = UnitTypeOutput \<and>
      GetReloadable (registry ex_manager_bare) ''output'' = None"
    by (simp add: ex_defs)
  have g: "groupByOutputs ex_deps (snd (snd (Expected ex_output))) = Inr ''elasticsearch'' \<and>
      groupByOutputs ex_deps (snd (snd (Expected ex_output_bad))) = Inl ''no type''"
    by (simp add: ex_defs)
  from unit_registered_before_reload [of ex_deps ex_output ex_manager_bare] h
  have "\<exists>cm2. handleUnitReload ex_deps ex_output ex_manager_bare = Inr cm2 \<and>
          units cm2 (ID ex_output) = Some ex_output \<and>
          effects_since ex_manager_bare cm2 =
            [UpdateState ex_output UnitStateFailed
               (case groupByOutputs ex_deps (snd (snd (Expected ex_output))) of
                  Inl err \<Rightarrow> ''Failed to generate config for output: '' @ err
                | Inr reloadConfig \<Rightarrow>
                    ''failed to find beat reloadable type '' @ quoted ''output'')
               None]"
    by blast
  with g have 2: "\<exists>cm2. handleUnitReload ex_deps ex_output ex_manager_bare = Inr cm2 \<and>
          units cm2 (ID ex_output) = Some ex_output \<and>
          effects_since ex_manager_bare cm2 =
            [UpdateState ex_output UnitStateFailed
               (''failed to find beat reloadable type '' @ quoted ''output'') None]"
    by simp
  from unit_registered_before_reload [of ex_deps ex_output_bad ex_manager_bare] h
  have "\<exists>cm2. handleUnitReload ex_deps ex_output_bad ex_manager_bare = Inr cm2 \<and>
          units cm2 (ID ex_output_bad) = Some ex_output_bad \<and>
          effects_since ex_manager_bare cm2 =
            [UpdateState ex_output_bad UnitStateFailed
               (case groupByOutputs ex_deps (snd (snd (Expected ex_output_bad))) of
                  Inl err \<Rightarrow> ''Failed to generate config for output: '' @ err
                | Inr reloadConfig \<Rightarrow>
                    ''failed to find beat reloadable type '' @ quoted ''output'')
               None]"
    by blast
  with g have 3: "\<exists>cm2. handleUnitReload ex_deps ex_output_bad ex_manager_bare = Inr cm2 \<and>
          units cm2 (ID ex_output_bad) = Some ex_output_bad \<and>
          effects_since ex_manager_bare cm2 =
            [UpdateState ex_output_bad UnitStateFailed
               ''Failed to generate config for output: no type'' None]"
    by simp
  from a 1 2 3 h show ?thesis by blast
qed

text \<open>
  C7 as stated, with the message naming the missing reloadable for every output unit
  whose reloadable is not registered, fails: \<open>groupByOutputs\<close> runs first, and when it
  returns an error the handler reports that error and returns before it asks the
  registry.
\<close>

theorem unregistered_output_message_counterexample:
  "Type ex_output_bad = UnitTypeOutput \<and>
   GetReloadable (registry ex_manager_bare) ''output'' = None \<and>
   map_sum id effects (handleUnitReload ex_deps ex_output_bad ex_manager_bare) =
     Inr [UpdateState ex_output_bad UnitStateFailed
            ''Failed to generate config for output: no type'' None] \<and>
   ''Failed to generate config for output: no type''
     \<noteq> ''failed to find beat reloadable type '' @ quoted ''output''"
  by (simp add: ex_defs op_defs)

subsection \<open>Removed events\<close>

text \<open>
  C8. The loop's handling of a Removed event for a unit deletes the unit's identifier
  from the registry, so that a lookup of that identifier returns nothing, and does
  nothing else: the trace is unchanged, so no reload is dispatched and no status pushed.
\<close>

theorem Removed_event:
  "unitListen_body \<lparr>change_Type = UnitChangedRemoved, change_Unit = unit\<rparr> cm
     = Inr (cm\<lparr>units := (units cm)(ID unit := None)\<rparr>) \<and>
   getUnit (ID unit) (cm\<lparr>units := (units cm)(ID unit := None)\<rparr>) = None \<and>
   effects (cm\<lparr>units := (units cm)(ID unit := None)\<rparr>) = effects cm"
  by (simp add: unitListen_body_def deleteUnit_def getUnit_def)

subsection \<open>Which status reports carry the payload\<close>

text \<open>
  C9, as amended. \<open>UpdateStatus\<close> on a manager whose main unit is registered pushes one
  report to that unit, and the report carries the manager's payload: the one handed to
  \<open>SetPayload\<close> last. The reports pushed by the output handler, by the input handler and
  by the shutdown sequence carry no payload (nil).
\<close>

theorem payload_attached_by_UpdateStatus_only:
  "(units cm (mainUnit cm) = Some u \<longrightarrow>
      UpdateStatus s msg cm
        = Inr (cm\<lparr>effects := effects cm @ [UpdateState u s msg (payload cm)]\<rparr>) \<and>
      UpdateStatus s msg (SetPayload p cm)
        = Inr (cm\<lparr>payload := p, effects := effects cm @ [UpdateState u s msg p]\<rparr>)) \<and>
   (handleOutputReload deps unit cm = Inr cm' \<longrightarrow>
      set (report_payloads (effects_since cm cm')) \<subseteq> {None}) \<and>
   (handleInputReload deps unit cm = Inr cm' \<longrightarrow>
      set (report_payloads (effects_since cm cm')) \<subseteq> {None}) \<and>
   (stopBeat unit cm = Inr cm' \<longrightarrow>
      set (report_payloads (effects_since cm cm')) \<subseteq> {None})"
  using handleOutputReload_payloads [of deps unit cm cm']
        handleInputReload_payloads [of deps unit cm cm']
        stopBeat_payloads [of unit cm cm']
  by (simp add: UpdateStatus_def SetPayload_def getUnit_def emit_def)

theorem payload_attached_by_UpdateStatus_only_witness:
  "units ex_running (mainUnit ex_running) = Some ex_input \<and>
   UpdateStatus UnitStateDegraded ''slow'' (SetPayload (Some [(''version'', ''8.5.0'')]) ex_running)
     = Inr (ex_running\<lparr>payload := Some [(''version'', ''8.5.0'')],
              effects := effects ex_running @
                [UpdateState ex_input UnitStateDegraded ''slow''
                   (Some [(''version'', ''8.5.0'')])]\<rparr>) \<and>
   (\<exists>cm'. handleOutputReload ex_deps ex_output
            (SetPayload (Some [(''version'', ''8.5.0'')]) ex_running) = Inr cm' \<and>
          set (report_payloads
                (effects_since (SetPayload (Some [(''version'', ''8.5.0'')]) ex_running) cm'))
            \<subseteq> {None}) \<and>
   (\<exists>cm'. handleInputReload ex_deps ex_input
            (SetPayload (Some [(''version'', ''8.5.0'')]) ex_running) = Inr cm' \<and>
          set (report_payloads
                (effects_since (SetPayload (Some [(''version'', ''8.5.0'')]) ex_running) cm'))
            \<subseteq> {None}) \<and>
   (\<exists>cm'. stopBeat ex_input
            (SetPayload (Some [(''version'', ''8.5.0'')]) ex_running) = Inr cm' \<and>
          set (report_payloads
                (effects_since (SetPayload (Some [(''version'', ''8.5.0'')]) ex_running) cm'))
            \<subseteq> {None})"
proof -
  let ?p = "Some [(''version'', ''8.5.0'')]"
  have h: "units ex_running (mainUnit ex_running) = Some ex_input"
    by (simp add: ex_defs)
  obtain a where a: "handleOutputReload ex_deps ex_output (SetPayload ?p ex_running) = Inr a"
    by (simp add: ex_defs op_defs)
  obtain b where b: "handleInputReload ex_deps ex_input (SetPayload ?p ex_running) = Inr b"
    by (simp add: ex_defs op_defs)
  obtain c where c: "stopBeat ex_input (SetPayload ?p ex_running) = Inr c"
    by (simp add: ex_defs op_defs)
  from payload_attached_by_UpdateStatus_only
         [of ex_running ex_input UnitStateDegraded "''slow''" ?p] h
  have 1: "UpdateStatus UnitStateDegraded ''slow'' (SetPayload ?p ex_running)
     = Inr (ex_running\<lparr>payload := ?p,
              effects := effects ex_running @
                [UpdateState ex_input UnitStateDegraded ''slow'' ?p]\<rparr>)"
    by blast
  from payload_attached_by_UpdateStatus_only
         [of "SetPayload ?p ex_running" _ _ _ _ ex_deps ex_output a] a
  have 2: "set (report_payloads (effects_since (SetPayload ?p ex_running) a)) \<subseteq> {None}"
    by blast
  from payload_attached_by_UpdateStatus_only
         [of "SetPayload ?p ex_running" _ _ _ _ ex_deps ex_input b] b
  have 3: "set (report_payloads (effects_since (SetPayload ?p ex_running) b)) \<subseteq> {None}"
    by blast
  from payload_attached_by_UpdateStatus_only
         [of "SetPayload ?p ex_running" _ _ _ _ _ ex_input c] c
  have 4: "set (report_payloads (effects_since (SetPayload ?p ex_running) c)) \<subseteq> {None}"
    by blast
  from h 1 2 3 4 a b c show ?thesis by blast
qed

text \<open>
  C9 as stated, with the payload on every report, fails: with a payload set, the output
  handler pushes Configuring and Healthy with a nil payload.
\<close>

theorem reload_push_without_payload_counterexample:
  "payload (SetPayload (Some [(''version'', ''8.5.0'')]) ex_manager)
     = Some [(''version'', ''8.5.0'')] \<and>
   map_sum id effects
     (handleOutputReload ex_deps ex_output (SetPayload (Some [(''version'', ''8.5.0'')]) ex_manager))
     = Inr [UpdateState ex_output UnitStateConfiguring ''reloading output component'' None,
            OutputReload ''elasticsearch'',
            UpdateState ex_output UnitStateHealthy ''reloaded output component'' None]"
  by (simp add: ex_defs op_defs)

subsection \<open>Stop after the main unit was removed\<close>

text \<open>
  C10. When the identifier in \<open>mainUnit\<close> is not in the registry, as after the
  designated main unit was removed, \<open>Stop()\<close> returns the manager as it was: the running
  flag is unchanged, nothing is pushed, the stop callback is not invoked and the client
  is not stopped.
\<close>

theorem Stop_without_registered_main_unit:
  assumes "units cm (mainUnit cm) = None"
  shows "Stop cm = Inr cm"
  using assms by (simp add: Stop_def)

theorem Stop_without_registered_main_unit_witness:
  "run ex_deps (ex_life @ [Listen \<lparr>change_Type = UnitChangedRemoved, change_Unit = ex_input\<rparr>]) ex_manager
     = Inr ex_orphaned \<and>
   mainUnit ex_orphaned = ''input-1'' \<and> units ex_orphaned (mainUnit ex_orphaned) = None \<and>
   isRunning ex_orphaned \<and> stopFunc ex_orphaned = Some ''beat.Stop'' \<and>
   Stop ex_orphaned = Inr ex_orphaned"
proof -
  have r: "run ex_deps (ex_life @ [Listen \<lparr>change_Type = UnitChangedRemoved, change_Unit = ex_input\<rparr>]) ex_manager
     = Inr ex_orphaned"
    by (simp add: ex_defs op_defs)
  have h: "units ex_orphaned (mainUnit ex_orphaned) = None"
    by (simp add: ex_defs deleteUnit_def)
  have k: "mainUnit ex_orphaned = ''input-1'' \<and> isRunning ex_orphaned \<and> stopFunc ex_orphaned = Some ''beat.Stop''"
    by (simp add: ex_defs deleteUnit_def)
  from Stop_without_registered_main_unit [OF h] r h k show ?thesis by blast
qed

end
